theory Spec2Isabelle
  imports Complex_Main
begin

section \<open>JavaScript values\<close>

text \<open>
  Numbers are the integral doubles and NaN. Timestamps (epoch milliseconds) and TTLs
  (seconds) are integral; a Date's time value is integral and at most 8.64e15 in
  magnitude, below 2^53, where doubles hold integers exactly. Negative zero is
  \<open>Num 0\<close>: both are falsy and both compare \<open>\<le> 0\<close>. Fractional numbers and infinities
  are outside the model.
\<close>

datatype jsnum = Num int | NaN

text \<open>
  A value is a primitive, a Date (with its time value, NaN for an Invalid Date) or a
  plain object, which is the map of its own enumerable properties.
\<close>

datatype jsval =
    JUndefined
  | JNull
  | JBoolean bool
  | JNumber jsnum
  | JString string
  | JDate jsnum
  | JObject "string \<Rightarrow> jsval option"

type_synonym js_object = "string \<Rightarrow> jsval option"

text \<open>\<^verbatim>\<open>SessionData\<close> of express-session: an object with a \<^verbatim>\<open>cookie\<close> and the
  application's own properties.\<close>

type_synonym SessionData = js_object

text \<open>ToBoolean, as used by \<^verbatim>\<open>if (v)\<close>, \<^verbatim>\<open>!v\<close>, \<^verbatim>\<open>a && b\<close> and \<^verbatim>\<open>a || b\<close>.\<close>

fun truthy_num :: "jsnum \<Rightarrow> bool" where
  "truthy_num (Num n) = (n \<noteq> 0)"
| "truthy_num NaN = False"

fun truthy :: "jsval \<Rightarrow> bool" where
  "truthy JUndefined = False"
| "truthy JNull = False"
| "truthy (JBoolean b) = b"
| "truthy (JNumber n) = truthy_num n"
| "truthy (JString s) = (s \<noteq> [])"
| "truthy (JDate t) = True"
| "truthy (JObject m) = True"

text \<open>
  Property read \<^verbatim>\<open>v.k\<close> on a value that is neither null nor undefined (the source
  reads \<^verbatim>\<open>session.cookie.expires\<close> only behind \<^verbatim>\<open>session.cookie &&\<close>):
  an absent property, and any property of a primitive or a Date that the model
  knows nothing of, reads as undefined.
\<close>

definition property :: "jsval \<Rightarrow> string \<Rightarrow> jsval" where
  "property v k =
     (case v of
        JObject m \<Rightarrow> (case m k of Some x \<Rightarrow> x | None \<Rightarrow> JUndefined)
      | _ \<Rightarrow> JUndefined)"

text \<open>The host: \<^verbatim>\<open>Date.now()\<close> and the date-string parser, which is
  implementation-defined outside the ISO format.\<close>

record runtime =
  now :: int
  date_parse :: "string \<Rightarrow> jsnum"

text \<open>TimeClip: a time value beyond 8.64e15 ms makes an Invalid Date.\<close>

fun time_clip :: "jsnum \<Rightarrow> jsnum" where
  "time_clip (Num t) = (if \<bar>t\<bar> \<le> 8640000000000000 then Num t else NaN)"
| "time_clip NaN = NaN"

text \<open>\<^verbatim>\<open>Number(new Date(v))\<close>: the time value of the Date constructed from \<open>v\<close>.
  A Date is copied; a string is parsed; a plain object converts to the string
  \<^verbatim>\<open>[object Object]\<close> first; any other primitive converts to a number.\<close>

fun to_time :: "runtime \<Rightarrow> jsval \<Rightarrow> jsnum" where
  "to_time rt (JDate t) = t"
| "to_time rt (JString s) = time_clip (date_parse rt s)"
| "to_time rt (JObject m) = time_clip (date_parse rt ''[object Object]'')"
| "to_time rt (JNumber n) = time_clip n"
| "to_time rt (JBoolean b) = Num (if b then 1 else 0)"
| "to_time rt JNull = Num 0"
| "to_time rt JUndefined = NaN"

fun js_minus :: "jsnum \<Rightarrow> jsnum \<Rightarrow> jsnum" where
  "js_minus (Num a) (Num b) = Num (a - b)"
| "js_minus _ _ = NaN"

text \<open>
  \<^verbatim>\<open>Math.ceil(x / d)\<close> for a positive integral divisor. The quotient is not integral
  in general, so division and rounding up are one step here; for \<open>\<bar>x\<bar> < 2^53\<close> the
  correctly rounded double quotient has the same ceiling as the exact one.
\<close>

fun js_ceil_div :: "jsnum \<Rightarrow> int \<Rightarrow> jsnum" where
  "js_ceil_div (Num x) d = Num (- ((- x) div d))"
| "js_ceil_div NaN d = NaN"

text \<open>\<^verbatim>\<open>currentTTL <= 0\<close>; a comparison with NaN is false.\<close>

fun js_le_zero :: "jsnum \<Rightarrow> bool" where
  "js_le_zero (Num n) = (n \<le> 0)"
| "js_le_zero NaN = False"

section \<open>Options and the static state of the class\<close>

datatype CosmosClient = CosmosClient nat

text \<open>\<^verbatim>\<open>ttl?: number | { (session: SessionData): number }\<close>\<close>

datatype ttl_policy = TtlNumber jsnum | TtlFunction "SessionData \<Rightarrow> jsnum"

text \<open>
  \<^verbatim>\<open>CosmosStoreOptions\<close>. Every field may be undefined at run time (\<open>None\<close>): the
  source tests the required ones itself, and the static \<^verbatim>\<open>CosmosStore.options\<close>
  is the same shape, \<^verbatim>\<open>{}\<close> being the record of all \<open>None\<close>.
\<close>

record CosmosStoreOptions =
  cosmosClient :: "CosmosClient option"
  databaseName :: "string option"
  containerName :: "string option"
  ttl :: "ttl_policy option"
  disableTouch :: "bool option"

definition empty_options :: CosmosStoreOptions where
  "empty_options =
     \<lparr>cosmosClient = None, databaseName = None, containerName = None,
      ttl = None, disableTouch = None\<rparr>"

definition PARTITION_KEY_PATH :: string where
  "PARTITION_KEY_PATH = ''/id''"

definition DEFAULT_CONTAINER_NAME :: string where
  "DEFAULT_CONTAINER_NAME = ''sessions''"

definition DEFAULT_TTL :: int where
  "DEFAULT_TTL = 86400"

fun truthy_string :: "string option \<Rightarrow> bool" where
  "truthy_string None = False"
| "truthy_string (Some s) = (s \<noteq> [])"

fun truthy_policy :: "ttl_policy option \<Rightarrow> bool" where
  "truthy_policy None = False"
| "truthy_policy (Some (TtlNumber n)) = truthy_num n"
| "truthy_policy (Some (TtlFunction f)) = True"

text \<open>\<^verbatim>\<open>updateOptions\<close> assigns the five fields of the static options in place.\<close>

definition updateOptions :: "CosmosStoreOptions \<Rightarrow> CosmosStoreOptions \<Rightarrow> CosmosStoreOptions" where
  "updateOptions opts static =
     static
       \<lparr>cosmosClient := cosmosClient opts,
        containerName :=
          (if truthy_string (containerName opts) then containerName opts
           else Some DEFAULT_CONTAINER_NAME),
        databaseName := databaseName opts,
        disableTouch := (if disableTouch opts = Some True then Some True else Some False),
        ttl :=
          (if truthy_policy (ttl opts) then ttl opts
           else Some (TtlNumber (Num DEFAULT_TTL)))\<rparr>"

section \<open>The TTL of a session\<close>

text \<open>\<^verbatim>\<open>typeof CosmosStore.options.ttl === 'function'\<close> and, when it is not, the value
  that \<^verbatim>\<open>return CosmosStore.options.ttl\<close> gives: a number, or undefined (\<open>None\<close>).\<close>

fun policy_function :: "ttl_policy option \<Rightarrow> (SessionData \<Rightarrow> jsnum) option" where
  "policy_function (Some (TtlFunction f)) = Some f"
| "policy_function _ = None"

fun policy_number :: "ttl_policy option \<Rightarrow> jsnum option" where
  "policy_number (Some (TtlNumber n)) = Some n"
| "policy_number _ = None"

text \<open>\<^verbatim>\<open>session.cookie && session.cookie.expires\<close>\<close>

definition has_expires :: "SessionData \<Rightarrow> bool" where
  "has_expires session =
     (truthy (property (JObject session) ''cookie'') \<and>
      truthy (property (property (JObject session) ''cookie'') ''expires''))"

text \<open>\<^verbatim>\<open>Math.ceil((Number(new Date(session.cookie.expires)) - Date.now()) / 1000)\<close>\<close>

definition expiry_ttl :: "runtime \<Rightarrow> SessionData \<Rightarrow> jsnum" where
  "expiry_ttl rt session =
     (let sessionExpiry = to_time rt (property (property (JObject session) ''cookie'') ''expires'');
          current = Num (now rt)
      in js_ceil_div (js_minus sessionExpiry current) 1000)"

definition getTTL :: "runtime \<Rightarrow> CosmosStoreOptions \<Rightarrow> SessionData \<Rightarrow> jsnum option" where
  "getTTL rt static session =
     (case policy_function (ttl static) of
        Some f \<Rightarrow> Some (f session)
      | None \<Rightarrow>
          if has_expires session then Some (expiry_ttl rt session)
          else policy_number (ttl static))"

section \<open>The store instance and the backing store\<close>

datatype Database = Database "string option"

datatype Container = Container Database "string option"

text \<open>An instance of the class: its identity on the heap, and the two handles, which
  are undefined until \<^verbatim>\<open>setup\<close> assigns them.\<close>

record CosmosStore =
  ref :: nat
  database :: "Database option"
  container :: "Container option"

text \<open>What can be thrown: an \<^verbatim>\<open>Error\<close> with its message, the TypeError of a read
  through undefined, and an error of the database client.\<close>

datatype error = Error string | TypeError | BackendError nat

text \<open>One element of \<^verbatim>\<open>operations\<close> in a patch: op, path and value.\<close>

datatype patch_operation = PatchOperation string string jsval

text \<open>The calls the store makes on the database client.\<close>

datatype request =
    DatabasesCreateIfNotExists CosmosClient "string option"
  | ContainersCreateIfNotExists Database "string option" int string
  | ItemsUpsert Container js_object
  | ItemsCreate Container js_object
  | ItemDelete Container string string
  | ItemPatch Container string string "patch_operation list"

text \<open>The database client: a call succeeds (\<open>None\<close>) or throws.\<close>

type_synonym backend = "request \<Rightarrow> error option"

text \<open>
  What one operation does: the calls it makes on the client, in order; the
  invocations of the callback it was given, each as the list of the arguments passed;
  and the error its promise is rejected with, if any.
\<close>

record outcome =
  requests :: "request list"
  callbacks :: "error list list"
  rejected :: "error option"

section \<open>Session operations\<close>

definition destroy :: "backend \<Rightarrow> CosmosStore \<Rightarrow> string \<Rightarrow> outcome" where
  "destroy be this sid =
     (case container this of
        None \<Rightarrow> \<lparr>requests = [], callbacks = [[TypeError]], rejected = None\<rparr>
      | Some c \<Rightarrow>
          (case be (ItemDelete c sid sid) of
             None \<Rightarrow> \<lparr>requests = [ItemDelete c sid sid], callbacks = [], rejected = None\<rparr>
           | Some e \<Rightarrow> \<lparr>requests = [ItemDelete c sid sid], callbacks = [[e]], rejected = None\<rparr>))"

text \<open>
  \<^verbatim>\<open>set\<close>. The expired branch calls \<^verbatim>\<open>this.destroy(sid)\<close> with no callback, so what
  \<^verbatim>\<open>destroy\<close> reports goes to its default no-op and not to the callback of \<^verbatim>\<open>set\<close>.
\<close>

definition set_session ::
  "backend \<Rightarrow> runtime \<Rightarrow> CosmosStoreOptions \<Rightarrow> CosmosStore \<Rightarrow> string \<Rightarrow> SessionData \<Rightarrow> outcome" where
  "set_session be rt static this sid session =
     (let currentTTL = getTTL rt static session;
          sessionItem = [''id'' \<mapsto> JString sid] ++ session
      in case currentTTL of
           Some n \<Rightarrow>
             if truthy_num n then
               if js_le_zero n then (destroy be this sid)\<lparr>callbacks := []\<rparr>
               else
                 (case container this of
                    None \<Rightarrow> \<lparr>requests = [], callbacks = [[TypeError]], rejected = None\<rparr>
                  | Some c \<Rightarrow>
                      let r = ItemsUpsert c (sessionItem(''ttl'' \<mapsto> JNumber n)) in
                      (case be r of
                         None \<Rightarrow> \<lparr>requests = [r], callbacks = [], rejected = None\<rparr>
                       | Some e \<Rightarrow> \<lparr>requests = [r], callbacks = [[e]], rejected = None\<rparr>))
             else
               (case container this of
                  None \<Rightarrow> \<lparr>requests = [], callbacks = [[TypeError]], rejected = None\<rparr>
                | Some c \<Rightarrow>
                    (case be (ItemsCreate c sessionItem) of
                       None \<Rightarrow>
                         \<lparr>requests = [ItemsCreate c sessionItem], callbacks = [], rejected = None\<rparr>
                     | Some e \<Rightarrow>
                         \<lparr>requests = [ItemsCreate c sessionItem], callbacks = [[e]], rejected = None\<rparr>))
         | None \<Rightarrow>
             (case container this of
                None \<Rightarrow> \<lparr>requests = [], callbacks = [[TypeError]], rejected = None\<rparr>
              | Some c \<Rightarrow>
                  (case be (ItemsCreate c sessionItem) of
                     None \<Rightarrow>
                       \<lparr>requests = [ItemsCreate c sessionItem], callbacks = [], rejected = None\<rparr>
                   | Some e \<Rightarrow>
                       \<lparr>requests = [ItemsCreate c sessionItem], callbacks = [[e]], rejected = None\<rparr>)))"

text \<open>The \<^verbatim>\<open>value\<close> of the patch operation: what \<^verbatim>\<open>getTTL\<close> returned.\<close>

fun ttl_value :: "jsnum option \<Rightarrow> jsval" where
  "ttl_value None = JUndefined"
| "ttl_value (Some n) = JNumber n"

definition touch ::
  "backend \<Rightarrow> runtime \<Rightarrow> CosmosStoreOptions \<Rightarrow> CosmosStore \<Rightarrow> string \<Rightarrow> SessionData \<Rightarrow> outcome" where
  "touch be rt static this sid session =
     (if disableTouch static = Some True then
        \<lparr>requests = [], callbacks = [[]], rejected = None\<rparr>
      else
        (case container this of
           None \<Rightarrow> \<lparr>requests = [], callbacks = [[]], rejected = None\<rparr>
         | Some c \<Rightarrow>
             let r = ItemPatch c sid sid
                       [PatchOperation ''replace'' ''/ttl'' (ttl_value (getTTL rt static session))]
             in (case be r of
                   None \<Rightarrow> \<lparr>requests = [r], callbacks = [[]], rejected = None\<rparr>
                 | Some e \<Rightarrow> \<lparr>requests = [r], callbacks = [[]], rejected = None\<rparr>)))"

section \<open>The patch of a stored item\<close>

text \<open>The items of the container, by id.\<close>

type_synonym items = "string \<Rightarrow> js_object option"

text \<open>
  Modelled from the spec: the effect of the database's partial update, which belongs
  to the database service and not to this repository (\<^verbatim>\<open>patch_field(container_handle,
  id, partition_key, field_path, value)\<close>, "partial update of specific fields without
  rewriting the whole record"). A \<^verbatim>\<open>replace\<close> at the path \<^verbatim>\<open>/f\<close> gives the top-level
  field \<open>f\<close>, which must exist, its new value. Any other operation or path is refused
  here, a refused patch changes nothing, and so does the patch of an absent item.
\<close>

fun path_field :: "string \<Rightarrow> string option" where
  "path_field [] = None"
| "path_field (c # f) = (if c = CHR ''/'' \<and> CHR ''/'' \<notin> set f then Some f else None)"

fun apply_operation :: "patch_operation \<Rightarrow> js_object \<Rightarrow> js_object option" where
  "apply_operation (PatchOperation op path v) d =
     (if op = ''replace'' then
        (case path_field path of
           None \<Rightarrow> None
         | Some f \<Rightarrow> (if d f = None then None else Some (d(f \<mapsto> v))))
      else None)"

fun apply_operations :: "patch_operation list \<Rightarrow> js_object \<Rightarrow> js_object option" where
  "apply_operations [] d = Some d"
| "apply_operations (p # ps) d =
     (case apply_operation p d of
        None \<Rightarrow> None
      | Some d' \<Rightarrow> apply_operations ps d')"

definition patch_item :: "items \<Rightarrow> string \<Rightarrow> patch_operation list \<Rightarrow> items" where
  "patch_item its i ops =
     (case its i of
        None \<Rightarrow> its
      | Some d \<Rightarrow>
          (case apply_operations ops d of
             None \<Rightarrow> its
           | Some d' \<Rightarrow> its(i \<mapsto> d')))"

text \<open>The container after the database has served a request of \<^verbatim>\<open>touch\<close>.\<close>

fun after_patch :: "request \<Rightarrow> items \<Rightarrow> items" where
  "after_patch (ItemPatch c i pk ops) its = patch_item its i ops"
| "after_patch _ its = its"


section \<open>The singleton and its life cycle\<close>

text \<open>The static members of the class, and the next free object identity.\<close>

record statics =
  options :: CosmosStoreOptions
  store :: "CosmosStore option"
  next_ref :: nat

definition initial :: statics where
  "initial = \<lparr>options = empty_options, store = None, next_ref = 0\<rparr>"

text \<open>\<^verbatim>\<open>new CosmosStore()\<close>: the new instance, or the error thrown.\<close>

definition constructor :: "statics \<Rightarrow> error + (CosmosStore \<times> statics)" where
  "constructor s =
     (if store s \<noteq> None then
        Inl (Error ''Cosmos Store has already been initialized. Please use CosmosStore.initializeStore()'')
      else if cosmosClient (options s) = None then
        Inl (Error ''Cannot initialize Cosmos Store. Please use CosmosStore.initializeStore()'')
      else
        Inr (\<lparr>ref = next_ref s, database = None, container = None\<rparr>,
             s\<lparr>next_ref := Suc (next_ref s)\<rparr>))"

definition createContainer ::
  "backend \<Rightarrow> CosmosStoreOptions \<Rightarrow> CosmosStore \<Rightarrow> error option \<times> request list" where
  "createContainer be static this =
     (case database this of
        None \<Rightarrow> (None, [])
      | Some db \<Rightarrow>
          (be (ContainersCreateIfNotExists db (containerName static) (- 1) PARTITION_KEY_PATH),
           [ContainersCreateIfNotExists db (containerName static) (- 1) PARTITION_KEY_PATH]))"

text \<open>\<^verbatim>\<open>setup\<close>: the error thrown if any, the instance as the assignments left it, and
  the calls made.\<close>

definition setup_store ::
  "backend \<Rightarrow> CosmosStoreOptions \<Rightarrow> CosmosStore \<Rightarrow> error option \<times> CosmosStore \<times> request list" where
  "setup_store be static this =
     (case cosmosClient static of
        None \<Rightarrow> (Some TypeError, this, [])
      | Some client \<Rightarrow>
          (case be (DatabasesCreateIfNotExists client (databaseName static)) of
             Some e \<Rightarrow> (Some e, this, [DatabasesCreateIfNotExists client (databaseName static)])
           | None \<Rightarrow>
               let this1 = this\<lparr>database := Some (Database (databaseName static))\<rparr> in
               (case createContainer be static this1 of
                  (Some e, rs) \<Rightarrow>
                    (Some e, this1, DatabasesCreateIfNotExists client (databaseName static) # rs)
                | (None, rs) \<Rightarrow>
                    (None,
                     this1\<lparr>container :=
                       Some (Container (Database (databaseName static)) (containerName static))\<rparr>,
                     DatabasesCreateIfNotExists client (databaseName static) # rs))))"

text \<open>
  \<^verbatim>\<open>initializeStore\<close>: the instance returned or the error of the rejection, the static
  state afterwards, and the calls made on the client. The singleton is assigned before
  \<^verbatim>\<open>setup\<close> runs and stays assigned when \<^verbatim>\<open>setup\<close> throws.
\<close>

definition initializeStore ::
  "backend \<Rightarrow> CosmosStoreOptions \<Rightarrow> statics \<Rightarrow> (error + CosmosStore) \<times> statics \<times> request list" where
  "initializeStore be opts s =
     (if cosmosClient opts = None then (Inl (Error ''Cosmos DB Client is required.''), s, [])
      else if \<not> truthy_string (databaseName opts) then
        (Inl (Error ''Database name is required''), s, [])
      else
        (case store s of
           Some st \<Rightarrow> (Inr st, s, [])
         | None \<Rightarrow>
             let s1 = s\<lparr>options := updateOptions opts (options s)\<rparr> in
             (case constructor s1 of
                Inl e \<Rightarrow> (Inl e, s1, [])
              | Inr (st, s2) \<Rightarrow>
                  (case setup_store be (options s2) st of
                     (Some e, st', rs) \<Rightarrow> (Inl e, s2\<lparr>store := Some st'\<rparr>, rs)
                   | (None, st', rs) \<Rightarrow> (Inr st', s2\<lparr>store := Some st'\<rparr>, rs)))))"

definition reset :: "statics \<Rightarrow> statics" where
  "reset s = s\<lparr>store := None, options := empty_options\<rparr>"

text \<open>A sequence of \<^verbatim>\<open>initializeStore\<close> calls, each with its own options and its own
  behaviour of the client: the results in order, the final static state, and all the
  calls made on the client.\<close>

fun initializeStore_calls ::
  "(backend \<times> CosmosStoreOptions) list \<Rightarrow> statics \<Rightarrow>
   (error + CosmosStore) list \<times> statics \<times> request list" where
  "initializeStore_calls [] s = ([], s, [])"
| "initializeStore_calls ((be, opts) # cs) s =
     (case initializeStore be opts s of
        (r, s', rs) \<Rightarrow>
          (case initializeStore_calls cs s' of
             (results, s'', rs') \<Rightarrow> (r # results, s'', rs @ rs')))"

text \<open>
  The static states a program can bring about through the public members
  (\<^verbatim>\<open>initializeStore\<close>, \<^verbatim>\<open>reset\<close>) and through a direct construction, were one to
  succeed.
\<close>

inductive reachable :: "statics \<Rightarrow> bool" where
  reachable_initial: "reachable initial"
| reachable_initializeStore:
    "reachable s \<Longrightarrow> initializeStore be opts s = (r, s', rs) \<Longrightarrow> reachable s'"
| reachable_reset: "reachable s \<Longrightarrow> reachable (reset s)"
| reachable_constructor: "reachable s \<Longrightarrow> constructor s = Inr (st, s') \<Longrightarrow> reachable s'"

text \<open>
  A program's use of the class between two resets: calls of \<^verbatim>\<open>initializeStore\<close> and
  attempts at \<^verbatim>\<open>new CosmosStore()\<close>, in any order. \<open>run\<close> gives the static state
  afterwards; \<open>next_ref\<close> has then advanced by the number of instances constructed.
\<close>

datatype call = CallInitializeStore backend CosmosStoreOptions | CallNew

fun run :: "call list \<Rightarrow> statics \<Rightarrow> statics" where
  "run [] s = s"
| "run (CallInitializeStore be opts # cs) s = run cs (fst (snd (initializeStore be opts s)))"
| "run (CallNew # cs) s =
     (case constructor s of
        Inl e \<Rightarrow> run cs s
      | Inr (st, s') \<Rightarrow> run cs s')"

section \<open>Documents written by a request\<close>

fun written :: "request \<Rightarrow> js_object option" where
  "written (ItemsUpsert c d) = Some d"
| "written (ItemsCreate c d) = Some d"
| "written _ = None"

text \<open>The \<^verbatim>\<open>id\<close> of each document that a list of calls writes.\<close>

definition written_ids :: "request list \<Rightarrow> jsval option list" where
  "written_ids rs = map (\<lambda>d. d ''id'') (List.map_filter written rs)"

section \<open>Concrete inputs\<close>

text \<open>A client on which every call succeeds, and one on which every call fails.\<close>

definition all_ok :: backend where
  "all_ok r = None"

definition all_fail :: backend where
  "all_fail r = Some (BackendError 503)"

text \<open>The options of the repository's tests: a client and a database name.\<close>

definition example_options :: CosmosStoreOptions where
  "example_options =
     \<lparr>cosmosClient = Some (CosmosClient 0), databaseName = Some ''db'',
      containerName = None, ttl = None, disableTouch = None\<rparr>"

definition sessions_container :: Container where
  "sessions_container = Container (Database (Some ''db'')) (Some ''sessions'')"

text \<open>The instance and the static state after \<^verbatim>\<open>initializeStore\<close> has succeeded with
  these options (lemma \<open>initializeStore_example\<close>).\<close>

definition ready_store :: CosmosStore where
  "ready_store =
     \<lparr>ref = 0, database = Some (Database (Some ''db'')),
      container = Some (Container (Database (Some ''db'')) (Some ''sessions''))\<rparr>"

definition ready :: statics where
  "ready =
     \<lparr>options =
        \<lparr>cosmosClient = Some (CosmosClient 0), databaseName = Some ''db'',
         containerName = Some ''sessions'', ttl = Some (TtlNumber (Num 86400)),
         disableTouch = Some False\<rparr>,
      store = Some ready_store, next_ref = 1\<rparr>"

definition example_runtime :: runtime where
  "example_runtime = \<lparr>now = 1700000000000, date_parse = (\<lambda>s. NaN)\<rparr>"

text \<open>The sessions that the tests generate: with an expiry date, and without one.\<close>

definition session_expiring :: "int \<Rightarrow> SessionData" where
  "session_expiring t =
     [''cookie'' \<mapsto>
        JObject [''originalMaxAge'' \<mapsto> JNumber (Num 60000), ''expires'' \<mapsto> JDate (Num t)],
      ''user'' \<mapsto> JString ''u1'']"

definition session_plain :: SessionData where
  "session_plain =
     [''cookie'' \<mapsto> JObject [''originalMaxAge'' \<mapsto> JNull], ''user'' \<mapsto> JString ''u1'']"

definition session_with_id :: SessionData where
  "session_with_id = session_plain(''id'' \<mapsto> JString ''other'')"

text \<open>The custom TTL function of the tests, \<^verbatim>\<open>() => 5\<close>.\<close>

definition five :: "SessionData \<Rightarrow> jsnum" where
  "five session = Num 5"


text \<open>Options that differ from the first ones, and options with an empty database name.\<close>

definition other_options :: CosmosStoreOptions where
  "other_options =
     \<lparr>cosmosClient = Some (CosmosClient 1), databaseName = Some ''db2'',
      containerName = Some ''other'', ttl = Some (TtlNumber (Num 5)),
      disableTouch = Some True\<rparr>"

definition nameless_options :: CosmosStoreOptions where
  "nameless_options =
     \<lparr>cosmosClient = Some (CosmosClient 0), databaseName = Some [],
      containerName = None, ttl = None, disableTouch = None\<rparr>"

text \<open>Options with a TTL of 0 and an empty container name.\<close>

definition zero_options :: CosmosStoreOptions where
  "zero_options =
     \<lparr>cosmosClient = Some (CosmosClient 0), databaseName = Some ''db'',
      containerName = Some [], ttl = Some (TtlNumber (Num 0)), disableTouch = None\<rparr>"

text \<open>A session whose \<^verbatim>\<open>cookie.expires\<close> is the given value, and a host whose parser
  knows one ISO date string, 1.5 seconds after its clock.\<close>

definition session_with_expires :: "jsval \<Rightarrow> SessionData" where
  "session_with_expires v =
     [''cookie'' \<mapsto> JObject [''originalMaxAge'' \<mapsto> JNumber (Num 60000), ''expires'' \<mapsto> v],
      ''user'' \<mapsto> JString ''u1'']"

definition iso_runtime :: runtime where
  "iso_runtime =
     \<lparr>now = 1700000000000,
      date_parse =
        (\<lambda>s. if s = ''2023-11-14T22:13:21.500Z'' then Num 1700000001500 else NaN)\<rparr>"

text \<open>The instance that \<^verbatim>\<open>initializeStore\<close> makes after a reset of \<open>ready\<close>.\<close>

definition second_store :: CosmosStore where
  "second_store =
     \<lparr>ref = 1, database = Some (Database (Some ''db'')),
      container = Some (Container (Database (Some ''db'')) (Some ''sessions''))\<rparr>"

section \<open>The concrete inputs, evaluated\<close>

lemma initializeStore_example:
  "initializeStore all_ok example_options initial =
     (Inr ready_store, ready,
      [DatabasesCreateIfNotExists (CosmosClient 0) (Some ''db''),
       ContainersCreateIfNotExists (Database (Some ''db'')) (Some ''sessions'') (- 1) ''/id''])"
  by (simp add: initializeStore_def example_options_def initial_def empty_options_def
      updateOptions_def constructor_def setup_store_def createContainer_def all_ok_def
      ready_def ready_store_def DEFAULT_TTL_def DEFAULT_CONTAINER_NAME_def PARTITION_KEY_PATH_def)

lemma container_ready_store: "container ready_store = Some sessions_container"
  by (simp add: ready_store_def sessions_container_def)

lemma has_expires_session_expiring: "has_expires (session_expiring t)"
  by (simp add: has_expires_def property_def session_expiring_def)

lemma not_has_expires_session_plain: "\<not> has_expires session_plain"
  by (simp add: has_expires_def property_def session_plain_def)

lemma expiry_ttl_session_expiring:
  "expiry_ttl rt (session_expiring t) = Num (- ((now rt - t) div 1000))"
  by (simp add: expiry_ttl_def property_def session_expiring_def)

lemma has_expires_session_with_expires: "has_expires (session_with_expires v) = truthy v"
  by (simp add: has_expires_def property_def session_with_expires_def)

lemma expires_session_with_expires:
  "property (property (JObject (session_with_expires v)) ''cookie'') ''expires'' = v"
  by (simp add: property_def session_with_expires_def)

section \<open>The TTL resolver\<close>

lemma has_expires_date:
  "session ''cookie'' = Some (JObject c) \<Longrightarrow> c ''expires'' = Some (JDate t) \<Longrightarrow>
   has_expires session"
  by (simp add: has_expires_def property_def)

lemma expiry_ttl_date:
  "session ''cookie'' = Some (JObject c) \<Longrightarrow> c ''expires'' = Some (JDate (Num e)) \<Longrightarrow>
   expiry_ttl rt session = Num \<lceil>(real_of_int e - real_of_int (now rt)) / 1000\<rceil>"
  using ceiling_divide_eq_div [of "e - now rt" 1000, where ?'a = real]
  by (simp add: expiry_ttl_def property_def)

text \<open>
  C1. \<^verbatim>\<open>getTTL\<close> has three tiers, in this order. A function policy gives its own
  return value on the record, whether or not the record has \<^verbatim>\<open>cookie.expires\<close>. When
  the policy is not a function and \<^verbatim>\<open>cookie.expires\<close> is set, the value derived from
  the expiry date is used. Otherwise the configured fixed number is used, which is
  86400 when the options gave none.
\<close>

theorem getTTL_precedence:
  "(ttl static = Some (TtlFunction f) \<longrightarrow> getTTL rt static session = Some (f session)) \<and>
   (policy_function (ttl static) = None \<and> has_expires session \<longrightarrow>
      getTTL rt static session = Some (expiry_ttl rt session)) \<and>
   (ttl static = Some (TtlNumber n) \<and> \<not> has_expires session \<longrightarrow>
      getTTL rt static session = Some n) \<and>
   (ttl opts = None \<and> \<not> has_expires session \<longrightarrow>
      getTTL rt (updateOptions opts cur) session = Some (Num 86400))"
  by (simp add: getTTL_def updateOptions_def DEFAULT_TTL_def)

theorem getTTL_precedence_witness:
  "getTTL example_runtime ((options ready)\<lparr>ttl := Some (TtlFunction five)\<rparr>)
     (session_expiring (now example_runtime + 3600000)) = Some (Num 5) \<and>
   getTTL example_runtime (options ready) (session_expiring (now example_runtime + 3600000))
     = Some (Num 3600) \<and>
   getTTL example_runtime (options ready) session_plain = Some (Num 86400) \<and>
   getTTL example_runtime (updateOptions example_options empty_options) session_plain
     = Some (Num 86400)"
  using getTTL_precedence [of "(options ready)\<lparr>ttl := Some (TtlFunction five)\<rparr>" five
      example_runtime "session_expiring (now example_runtime + 3600000)"]
    getTTL_precedence [of "options ready" _ example_runtime
      "session_expiring (now example_runtime + 3600000)"]
    getTTL_precedence [of "options ready" _ example_runtime session_plain "Num 86400"]
    getTTL_precedence [of _ _ example_runtime session_plain _ example_options empty_options]
  by (simp add: ready_def five_def has_expires_session_expiring not_has_expires_session_plain
      expiry_ttl_session_expiring example_options_def)

text \<open>
  C5. When the policy is not a function and the record's \<^verbatim>\<open>cookie.expires\<close> is
  present (truthy), whatever kind of value it is, the TTL is
  \<^verbatim>\<open>Math.ceil((Number(new Date(expires)) - Date.now()) / 1000)\<close>: with \<open>e\<close> the epoch
  milliseconds of that date, the ceiling of \<open>(e - now) / 1000\<close>, and NaN when the date
  is invalid. The value can be zero (a session that expired half a second ago) and
  negative (one that expired a minute ago).
\<close>

theorem getTTL_expires_ceiling:
  "(policy_function (ttl static) = None \<and> has_expires session \<longrightarrow>
      getTTL rt static session =
        Some (js_ceil_div
          (js_minus (to_time rt (property (property (JObject session) ''cookie'') ''expires''))
             (Num (now rt))) 1000)) \<and>
   (policy_function (ttl static) = None \<and> has_expires session \<and>
    to_time rt (property (property (JObject session) ''cookie'') ''expires'') = Num e \<longrightarrow>
      getTTL rt static session =
        Some (Num \<lceil>(real_of_int e - real_of_int (now rt)) / 1000\<rceil>)) \<and>
   getTTL example_runtime (options ready) (session_expiring (now example_runtime - 500))
     = Some (Num 0) \<and>
   getTTL example_runtime (options ready) (session_expiring (now example_runtime - 60000))
     = Some (Num (- 60))"
proof -
  have general: "policy_function (ttl static) = None \<and> has_expires session \<longrightarrow>
      getTTL rt static session =
        Some (js_ceil_div
          (js_minus (to_time rt (property (property (JObject session) ''cookie'') ''expires''))
             (Num (now rt))) 1000)"
    by (simp add: getTTL_def expiry_ttl_def)
  have ceiling: "policy_function (ttl static) = None \<and> has_expires session \<and>
    to_time rt (property (property (JObject session) ''cookie'') ''expires'') = Num e \<longrightarrow>
      getTTL rt static session =
        Some (Num \<lceil>(real_of_int e - real_of_int (now rt)) / 1000\<rceil>)"
    using ceiling_divide_eq_div [of "e - now rt" 1000, where ?'a = real]
    by (simp add: getTTL_def expiry_ttl_def)
  have zero: "getTTL example_runtime (options ready)
      (session_expiring (now example_runtime - 500)) = Some (Num 0)"
    by (simp add: getTTL_def ready_def has_expires_session_expiring expiry_ttl_session_expiring)
  have negative: "getTTL example_runtime (options ready)
      (session_expiring (now example_runtime - 60000)) = Some (Num (- 60))"
    by (simp add: getTTL_def ready_def has_expires_session_expiring expiry_ttl_session_expiring)
  from general ceiling zero negative show ?thesis
    by (intro conjI)
qed

theorem getTTL_expires_ceiling_witness:
  "getTTL iso_runtime (options ready) (session_with_expires (JDate (Num 1700000001500)))
     = Some (Num 2) \<and>
   getTTL iso_runtime (options ready) (session_with_expires (JNumber (Num 1700000001500)))
     = Some (Num 2) \<and>
   getTTL iso_runtime (options ready) (session_with_expires (JString ''2023-11-14T22:13:21.500Z''))
     = Some (Num 2) \<and>
   getTTL iso_runtime (options ready) (session_with_expires (JDate NaN)) = Some NaN"
proof -
  have p: "policy_function (ttl (options ready)) = None"
    by (simp add: ready_def)
  have n: "now iso_runtime = 1700000000000"
    by (simp add: iso_runtime_def)
  have c: "\<lceil>(real_of_int 1700000001500 - real_of_int 1700000000000) / 1000\<rceil> = (2::int)"
    by simp
  have d: "getTTL iso_runtime (options ready) (session_with_expires (JDate (Num 1700000001500)))
     = Some (Num 2)"
    using getTTL_expires_ceiling [of "options ready"
        "session_with_expires (JDate (Num 1700000001500))" iso_runtime 1700000001500,
        THEN conjunct2, THEN conjunct1] p n c
    by (simp add: has_expires_session_with_expires expires_session_with_expires)
  have m: "getTTL iso_runtime (options ready) (session_with_expires (JNumber (Num 1700000001500)))
     = Some (Num 2)"
    using getTTL_expires_ceiling [of "options ready"
        "session_with_expires (JNumber (Num 1700000001500))" iso_runtime 1700000001500,
        THEN conjunct2, THEN conjunct1] p n c
    by (simp add: has_expires_session_with_expires expires_session_with_expires)
  have s: "getTTL iso_runtime (options ready)
      (session_with_expires (JString ''2023-11-14T22:13:21.500Z'')) = Some (Num 2)"
    using getTTL_expires_ceiling [of "options ready"
        "session_with_expires (JString ''2023-11-14T22:13:21.500Z'')" iso_runtime 1700000001500,
        THEN conjunct2, THEN conjunct1] p n c
    by (simp add: has_expires_session_with_expires expires_session_with_expires iso_runtime_def)
  have i: "getTTL iso_runtime (options ready) (session_with_expires (JDate NaN)) = Some NaN"
    using getTTL_expires_ceiling [of "options ready" "session_with_expires (JDate NaN)"
        iso_runtime, THEN conjunct1] p
    by (simp add: has_expires_session_with_expires expires_session_with_expires)
  from d m s i show ?thesis
    by (intro conjI)
qed

section \<open>Writing a session\<close>

lemma set_session_expired:
  "getTTL rt static session = Some (Num n) \<Longrightarrow> n < 0 \<Longrightarrow>
   set_session be rt static this sid session = (destroy be this sid)\<lparr>callbacks := []\<rparr>"
  by (simp add: set_session_def Let_def)

lemma set_session_positive:
  "getTTL rt static session = Some (Num n) \<Longrightarrow> 0 < n \<Longrightarrow> container this = Some c \<Longrightarrow>
   requests (set_session be rt static this sid session) =
     [ItemsUpsert c (([''id'' \<mapsto> JString sid] ++ session)(''ttl'' \<mapsto> JNumber (Num n)))]"
  by (simp add: set_session_def Let_def split: option.splits)

lemma set_session_zero:
  "getTTL rt static session = Some (Num 0) \<Longrightarrow> container this = Some c \<Longrightarrow>
   requests (set_session be rt static this sid session) =
     [ItemsCreate c ([''id'' \<mapsto> JString sid] ++ session)]"
  by (simp add: set_session_def Let_def split: option.splits)

text \<open>
  C2. A TTL that resolves to exactly 0 does not reach \<^verbatim>\<open>destroy\<close>: the test
  \<^verbatim>\<open>if (currentTTL)\<close> takes 0 for "no TTL", so the comparison \<^verbatim>\<open>currentTTL <= 0\<close>
  is only ever made on a non-zero value. A session that expired half a second ago has
  TTL 0, and \<^verbatim>\<open>set\<close> creates it in the container, without a \<^verbatim>\<open>ttl\<close> field.
\<close>

theorem set_session_expired_now_creates:
  "getTTL example_runtime (options ready) (session_expiring (now example_runtime - 500))
     = Some (Num 0) \<and>
   requests (set_session all_ok example_runtime (options ready) ready_store ''s1''
       (session_expiring (now example_runtime - 500))) =
     [ItemsCreate sessions_container
        ([''id'' \<mapsto> JString ''s1''] ++ session_expiring (now example_runtime - 500))]"
proof -
  have t: "getTTL example_runtime (options ready) (session_expiring (now example_runtime - 500))
     = Some (Num 0)"
    by (simp add: getTTL_def ready_def has_expires_session_expiring expiry_ttl_session_expiring)
  from t set_session_zero [OF t container_ready_store] show ?thesis by simp
qed

section \<open>Destroying a session\<close>

lemma destroy_rejected: "rejected (destroy be this sid) = None"
  by (simp add: destroy_def split: option.splits)

lemma destroy_failure:
  "container this = Some c \<Longrightarrow> be (ItemDelete c sid sid) = Some e \<Longrightarrow>
   callbacks (destroy be this sid) = [[e]]"
  by (simp add: destroy_def)

lemma destroy_success:
  "container this = Some c \<Longrightarrow> be (ItemDelete c sid sid) = None \<Longrightarrow>
   callbacks (destroy be this sid) = []"
  by (simp add: destroy_def)

text \<open>
  C6. When the delete succeeds, \<^verbatim>\<open>destroy\<close> returns without invoking its callback:
  the callback is called in the \<^verbatim>\<open>catch\<close> block only.
\<close>

theorem destroy_success_no_callback:
  "destroy all_ok ready_store ''s1'' =
     \<lparr>requests = [ItemDelete sessions_container ''s1'' ''s1''], callbacks = [], rejected = None\<rparr>"
  by (simp add: destroy_def all_ok_def ready_store_def sessions_container_def)

section \<open>Touching a session\<close>

text \<open>
  C7. With touch disabled, \<^verbatim>\<open>touch\<close> calls its callback with no argument and makes
  no call on the database. Otherwise too, whether the patch succeeds or throws, the
  callback is invoked exactly once, with no argument, and nothing is thrown.
\<close>

theorem touch_always_succeeds:
  "(disableTouch static = Some True \<longrightarrow>
      touch be rt static this sid session = \<lparr>requests = [], callbacks = [[]], rejected = None\<rparr>) \<and>
   callbacks (touch be rt static this sid session) = [[]] \<and>
   rejected (touch be rt static this sid session) = None"
  by (simp add: touch_def Let_def split: option.splits)

theorem touch_always_succeeds_witness:
  "touch all_fail example_runtime ((options ready)\<lparr>disableTouch := Some True\<rparr>) ready_store ''s1''
     session_plain = \<lparr>requests = [], callbacks = [[]], rejected = None\<rparr> \<and>
   all_fail (ItemPatch sessions_container ''s1'' ''s1''
     [PatchOperation ''replace'' ''/ttl'' (JNumber (Num 86400))]) = Some (BackendError 503) \<and>
   requests (touch all_fail example_runtime (options ready) ready_store ''s1'' session_plain) =
     [ItemPatch sessions_container ''s1'' ''s1''
        [PatchOperation ''replace'' ''/ttl'' (JNumber (Num 86400))]] \<and>
   callbacks (touch all_fail example_runtime (options ready) ready_store ''s1'' session_plain) = [[]] \<and>
   rejected (touch all_fail example_runtime (options ready) ready_store ''s1'' session_plain) = None"
proof -
  have r: "requests (touch all_fail example_runtime (options ready) ready_store ''s1'' session_plain) =
     [ItemPatch sessions_container ''s1'' ''s1''
        [PatchOperation ''replace'' ''/ttl'' (JNumber (Num 86400))]]"
    by (simp add: touch_def Let_def ready_def ready_store_def sessions_container_def all_fail_def
        getTTL_def not_has_expires_session_plain)
  show ?thesis
    using touch_always_succeeds [of "(options ready)\<lparr>disableTouch := Some True\<rparr>" all_fail
        example_runtime ready_store "''s1''" session_plain]
      touch_always_succeeds [of "options ready" all_fail example_runtime ready_store "''s1''"
        session_plain] r
    by (simp add: all_fail_def)
qed



lemma dom_patch_item: "dom (patch_item its sid ops) = dom its"
  by (auto simp add: patch_item_def split: option.splits)




section \<open>The id of the document written\<close>

lemma written_ids_single_upsert: "written_ids [ItemsUpsert c d] = [d ''id'']"
  by (simp add: written_ids_def)

lemma written_ids_single_create: "written_ids [ItemsCreate c d] = [d ''id'']"
  by (simp add: written_ids_def)

lemma written_ids_no_write [simp]:
  "written_ids [] = []" "written_ids [ItemDelete c i pk] = []"
  by (simp_all add: written_ids_def)

lemma sessionItem_id:
  "([''id'' \<mapsto> JString sid] ++ session) ''id'' =
     (case session ''id'' of Some v \<Rightarrow> Some v | None \<Rightarrow> Some (JString sid))"
  by (simp add: map_add_def split: option.splits)

lemma written_ids_destroy: "written_ids (requests (destroy be this sid)) = []"
  by (simp add: destroy_def split: option.splits)

lemma requests_set_session:
  "requests (set_session be rt static this sid session) =
     (case getTTL rt static session of
        Some n \<Rightarrow>
          if truthy_num n then
            if js_le_zero n then requests (destroy be this sid)
            else
              (case container this of
                 None \<Rightarrow> []
               | Some c \<Rightarrow>
                   [ItemsUpsert c (([''id'' \<mapsto> JString sid] ++ session)(''ttl'' \<mapsto> JNumber n))])
          else
            (case container this of
               None \<Rightarrow> []
             | Some c \<Rightarrow> [ItemsCreate c ([''id'' \<mapsto> JString sid] ++ session)])
      | None \<Rightarrow>
          (case container this of
             None \<Rightarrow> []
           | Some c \<Rightarrow> [ItemsCreate c ([''id'' \<mapsto> JString sid] ++ session)]))"
  by (simp add: set_session_def Let_def split: option.splits)

lemma written_ids_set_session:
  "set (written_ids (requests (set_session be rt static this sid session))) \<subseteq>
     {case session ''id'' of Some v \<Rightarrow> Some v | None \<Rightarrow> Some (JString sid)}"
proof (cases "getTTL rt static session")
  case None
  then show ?thesis
    by (cases "container this")
      (simp_all add: requests_set_session written_ids_single_create sessionItem_id)
next
  case (Some n)
  show ?thesis
  proof (cases "truthy_num n")
    case False
    with Some show ?thesis
      by (cases "container this")
        (simp_all add: requests_set_session written_ids_single_create sessionItem_id)
  next
    case True
    show ?thesis
    proof (cases "js_le_zero n")
      case True
      with Some \<open>truthy_num n\<close> show ?thesis
        by (simp add: requests_set_session written_ids_destroy)
    next
      case False
      with Some \<open>truthy_num n\<close> show ?thesis
        by (cases "container this")
          (simp_all add: requests_set_session written_ids_single_upsert sessionItem_id)
    qed
  qed
qed

text \<open>
  C9. Every document that \<^verbatim>\<open>set\<close> writes (by upsert or by create) carries as its
  \<^verbatim>\<open>id\<close> the record's own \<^verbatim>\<open>id\<close> when the record has that property, since the
  record is spread after \<^verbatim>\<open>id: sid\<close>, and \<open>sid\<close> otherwise. With a positive TTL and
  a container, exactly one such document is written.
\<close>

theorem set_session_written_id:
  "(\<forall>x \<in> set (written_ids (requests (set_session be rt static this sid session))).
      x = (case session ''id'' of Some v \<Rightarrow> Some v | None \<Rightarrow> Some (JString sid))) \<and>
   (container this = Some c \<and> getTTL rt static session = Some (Num n) \<and> 0 < n \<longrightarrow>
      written_ids (requests (set_session be rt static this sid session)) =
        [case session ''id'' of Some v \<Rightarrow> Some v | None \<Rightarrow> Some (JString sid)])"
proof (intro conjI impI ballI)
  fix x
  assume "x \<in> set (written_ids (requests (set_session be rt static this sid session)))"
  with written_ids_set_session [of be rt static this sid session]
  show "x = (case session ''id'' of Some v \<Rightarrow> Some v | None \<Rightarrow> Some (JString sid))"
    by blast
next
  assume "container this = Some c \<and> getTTL rt static session = Some (Num n) \<and> 0 < n"
  then show "written_ids (requests (set_session be rt static this sid session)) =
        [case session ''id'' of Some v \<Rightarrow> Some v | None \<Rightarrow> Some (JString sid)]"
    by (simp add: set_session_positive written_ids_single_upsert sessionItem_id)
qed

theorem set_session_written_id_witness:
  "written_ids (requests (set_session all_ok example_runtime (options ready) ready_store ''s1''
      session_with_id)) = [Some (JString ''other'')] \<and>
   written_ids (requests (set_session all_ok example_runtime (options ready) ready_store ''s1''
      session_plain)) = [Some (JString ''s1'')]"
proof -
  have t: "getTTL example_runtime (options ready) session_plain = Some (Num 86400)"
    by (simp add: getTTL_def ready_def not_has_expires_session_plain)
  have "\<not> has_expires session_with_id"
    by (simp add: has_expires_def property_def session_with_id_def session_plain_def)
  then have t': "getTTL example_runtime (options ready) session_with_id = Some (Num 86400)"
    by (simp add: getTTL_def ready_def)
  have i: "session_with_id ''id'' = Some (JString ''other'')" "session_plain ''id'' = None"
    by (simp_all add: session_with_id_def session_plain_def)
  have z: "(0::int) < 86400"
    by simp
  have a: "written_ids (requests (set_session all_ok example_runtime (options ready) ready_store
      ''s1'' session_with_id)) =
      [case session_with_id ''id'' of Some v \<Rightarrow> Some v | None \<Rightarrow> Some (JString ''s1'')]"
    using set_session_written_id [of all_ok example_runtime "options ready" ready_store "''s1''"
      session_with_id sessions_container 86400, THEN conjunct2] t' container_ready_store z
    by blast
  have b: "written_ids (requests (set_session all_ok example_runtime (options ready) ready_store
      ''s1'' session_plain)) =
      [case session_plain ''id'' of Some v \<Rightarrow> Some v | None \<Rightarrow> Some (JString ''s1'')]"
    using set_session_written_id [of all_ok example_runtime "options ready" ready_store "''s1''"
      session_plain sessions_container 86400, THEN conjunct2] t container_ready_store z
    by blast
  from a b i show ?thesis
    by simp
qed

section \<open>The singleton\<close>

lemma constructor_after_updateOptions:
  "store s = None \<Longrightarrow> cosmosClient opts = Some cl \<Longrightarrow>
   constructor (s\<lparr>options := updateOptions opts (options s)\<rparr>) =
     Inr (\<lparr>ref = next_ref s, database = None, container = None\<rparr>,
          s\<lparr>options := updateOptions opts (options s), next_ref := Suc (next_ref s)\<rparr>)"
  by (simp add: constructor_def updateOptions_def)

lemma initializeStore_existing:
  "store s = Some st \<Longrightarrow>
   initializeStore be opts s =
     (if cosmosClient opts = None then Inl (Error ''Cosmos DB Client is required.'')
      else if \<not> truthy_string (databaseName opts) then Inl (Error ''Database name is required'')
      else Inr st, s, [])"
  by (simp add: initializeStore_def)

lemma initializeStore_invalid:
  "cosmosClient opts = None \<or> \<not> truthy_string (databaseName opts) \<Longrightarrow>
   snd (initializeStore be opts s) = (s, [])"
  by (auto simp add: initializeStore_def)

lemma initializeStore_fresh:
  "store s = None \<Longrightarrow> cosmosClient opts = Some cl \<Longrightarrow> truthy_string (databaseName opts) \<Longrightarrow>
   initializeStore be opts s = (r, s', rs) \<Longrightarrow>
   (\<exists>st'. store s' = Some st' \<and> (\<forall>st. r = Inr st \<longrightarrow> st = st')) \<and>
   options s' = updateOptions opts (options s)"
  by (auto simp add: initializeStore_def constructor_after_updateOptions Let_def
      split: prod.splits option.splits)

lemma initializeStore_cases:
  assumes "initializeStore be opts s = (r, s', rs)"
  shows "s' = s \<or>
    (store s = None \<and> (\<exists>st'. store s' = Some st') \<and> options s' = updateOptions opts (options s))"
proof (cases "cosmosClient opts = None \<or> \<not> truthy_string (databaseName opts)")
  case True
  with initializeStore_invalid [of opts be s] assms show ?thesis by simp
next
  case False
  then obtain cl where cl: "cosmosClient opts = Some cl" and db: "truthy_string (databaseName opts)"
    by auto
  show ?thesis
  proof (cases "store s")
    case None
    from initializeStore_fresh [OF None cl db assms] None show ?thesis by blast
  next
    case (Some st)
    with initializeStore_existing [OF Some, of be opts] assms show ?thesis by simp
  qed
qed

lemma initializeStore_success_store:
  assumes "initializeStore be opts s = (Inr st, s', rs)"
  shows "store s' = Some st"
proof (cases "cosmosClient opts = None \<or> \<not> truthy_string (databaseName opts)")
  case True
  with assms show ?thesis by (auto simp add: initializeStore_def split: if_splits)
next
  case False
  then obtain cl where cl: "cosmosClient opts = Some cl" and db: "truthy_string (databaseName opts)"
    by auto
  show ?thesis
  proof (cases "store s")
    case None
    from initializeStore_fresh [OF None cl db assms] show ?thesis by auto
  next
    case (Some st0)
    with initializeStore_existing [OF Some, of be opts] assms cl db show ?thesis by simp
  qed
qed

lemma initializeStore_calls_existing:
  "store s = Some st \<Longrightarrow>
   initializeStore_calls calls s =
     (map (\<lambda>(be, opts).
        if cosmosClient opts = None then Inl (Error ''Cosmos DB Client is required.'')
        else if \<not> truthy_string (databaseName opts) then Inl (Error ''Database name is required'')
        else Inr st) calls, s, [])"
proof (induction calls)
  case Nil
  then show ?case by simp
next
  case (Cons call calls)
  obtain be opts where call: "call = (be, opts)" by (cases call)
  from Cons show ?case
    by (simp add: call initializeStore_existing)
qed

text \<open>
  C3, as amended. After one successful \<^verbatim>\<open>initializeStore\<close>, in any sequence of further
  calls without a reset, a call whose options carry a client and a non-empty database
  name returns the instance of the first call, whatever else its options say; a call
  without them fails with the validation error. No call changes the static state, and
  none reaches the database.
\<close>

theorem initializeStore_repeat:
  "initializeStore be0 opts0 s0 = (Inr st, s1, rs0) \<Longrightarrow>
   initializeStore_calls calls s1 =
     (map (\<lambda>(be, opts).
        if cosmosClient opts = None then Inl (Error ''Cosmos DB Client is required.'')
        else if \<not> truthy_string (databaseName opts) then Inl (Error ''Database name is required'')
        else Inr st) calls, s1, [])"
  by (rule initializeStore_calls_existing) (rule initializeStore_success_store)

theorem initializeStore_repeat_witness:
  "initializeStore all_ok example_options initial =
     (Inr ready_store, ready,
      [DatabasesCreateIfNotExists (CosmosClient 0) (Some ''db''),
       ContainersCreateIfNotExists (Database (Some ''db'')) (Some ''sessions'') (- 1) ''/id'']) \<and>
   initializeStore_calls [(all_ok, example_options), (all_fail, other_options)] ready =
     ([Inr ready_store, Inr ready_store], ready, [])"
  using initializeStore_repeat [OF initializeStore_example,
      of "[(all_ok, example_options), (all_fail, other_options)]"] initializeStore_example
  by (simp add: example_options_def other_options_def)

text \<open>
  C3, as stated, fails: the options of a repeated call are validated before the
  singleton is looked at, so a repeated call with an empty database name is rejected
  and does not return the instance.
\<close>

theorem initializeStore_repeat_counterexample:
  "initializeStore all_ok example_options initial =
     (Inr ready_store, ready,
      [DatabasesCreateIfNotExists (CosmosClient 0) (Some ''db''),
       ContainersCreateIfNotExists (Database (Some ''db'')) (Some ''sessions'') (- 1) ''/id'']) \<and>
   initializeStore all_ok nameless_options ready =
     (Inl (Error ''Database name is required''), ready, []) \<and>
   fst (initializeStore all_ok nameless_options ready) \<noteq> Inr ready_store"
  by (simp add: initializeStore_example) (simp add: initializeStore_def nameless_options_def)


section \<open>The guard of the constructor\<close>

lemma constructor_guarded:
  "store s \<noteq> None \<or> cosmosClient (options s) = None \<Longrightarrow> isl (constructor s)"
  by (auto simp add: constructor_def)

lemma reachable_guarded:
  "reachable s \<Longrightarrow> store s \<noteq> None \<or> cosmosClient (options s) = None"
proof (induction rule: reachable.induct)
  case reachable_initial
  show ?case by (simp add: initial_def empty_options_def)
next
  case (reachable_initializeStore s be opts r s' rs)
  from initializeStore_cases [OF reachable_initializeStore.hyps(2)] reachable_initializeStore.IH
  show ?case by auto
next
  case (reachable_reset s)
  show ?case by (simp add: reset_def empty_options_def)
next
  case (reachable_constructor s st s')
  from reachable_constructor.IH have "isl (constructor s)"
    by (rule constructor_guarded)
  with reachable_constructor.hyps(2) show ?case by simp
qed

lemma initializeStore_ref_cases:
  assumes "initializeStore be opts s = (r, s', rs)"
  shows "s' = s \<or> (store s = None \<and> store s' \<noteq> None \<and> next_ref s' = Suc (next_ref s))"
proof (cases "cosmosClient opts = None \<or> \<not> truthy_string (databaseName opts)")
  case True
  with initializeStore_invalid [of opts be s] assms show ?thesis by simp
next
  case False
  then obtain cl where cl: "cosmosClient opts = Some cl" and db: "truthy_string (databaseName opts)"
    by auto
  show ?thesis
  proof (cases "store s")
    case None
    with cl db assms show ?thesis
      by (auto simp add: initializeStore_def constructor_after_updateOptions Let_def
          split: prod.splits option.splits)
  next
    case (Some st)
    with initializeStore_existing [OF Some, of be opts] assms show ?thesis by simp
  qed
qed

lemma run_existing: "store s \<noteq> None \<Longrightarrow> run calls s = s"
proof (induction calls)
  case Nil
  show ?case by simp
next
  case (Cons c calls)
  from Cons.prems obtain st where st: "store s = Some st" by auto
  show ?case
  proof (cases c)
    case (CallInitializeStore be opts)
    with Cons st show ?thesis
      by (simp add: initializeStore_existing)
  next
    case CallNew
    with Cons st show ?thesis
      by (simp add: constructor_def)
  qed
qed

lemma run_guarded:
  "store s \<noteq> None \<or> cosmosClient (options s) = None \<Longrightarrow>
   next_ref (run calls s) \<le> Suc (next_ref s)"
proof (induction calls)
  case Nil
  show ?case by simp
next
  case (Cons c calls)
  show ?case
  proof (cases c)
    case CallNew
    from Cons.prems have "isl (constructor s)"
      by (rule constructor_guarded)
    then obtain e where "constructor s = Inl e"
      by (cases "constructor s") auto
    with Cons CallNew show ?thesis by simp
  next
    case (CallInitializeStore be opts)
    obtain r s' rs where i: "initializeStore be opts s = (r, s', rs)"
      by (cases "initializeStore be opts s")
    from initializeStore_ref_cases [OF i] show ?thesis
    proof
      assume "s' = s"
      with Cons CallInitializeStore i show ?thesis by simp
    next
      assume h: "store s = None \<and> store s' \<noteq> None \<and> next_ref s' = Suc (next_ref s)"
      then have "run calls s' = s'"
        by (simp add: run_existing)
      with h CallInitializeStore i show ?thesis by simp
    qed
  qed
qed

lemma reachable_ready: "reachable ready"
  by (rule reachable_initializeStore [OF reachable_initial initializeStore_example])

text \<open>
  C4, as amended. A direct construction throws whenever the singleton exists or no
  client has been captured in the static options, and every static state that the
  public members can bring about is of one of these two kinds, so a direct
  construction never succeeds. Between two resets at most one instance is constructed:
  from a reachable state, any sequence of \<^verbatim>\<open>initializeStore\<close> calls and construction
  attempts constructs at most one, and none once the singleton exists.
\<close>

theorem one_instance_between_resets:
  "(store s \<noteq> None \<or> cosmosClient (options s) = None \<longrightarrow> isl (constructor s)) \<and>
   (reachable s \<longrightarrow> isl (constructor s)) \<and>
   (reachable s \<longrightarrow> next_ref (run calls s) \<le> Suc (next_ref s)) \<and>
   (store s \<noteq> None \<longrightarrow> run calls s = s)"
proof -
  have guard: "store s \<noteq> None \<or> cosmosClient (options s) = None \<longrightarrow> isl (constructor s)"
    by (blast intro: constructor_guarded)
  have never: "reachable s \<longrightarrow> isl (constructor s)"
    by (blast intro: constructor_guarded dest: reachable_guarded)
  have one: "reachable s \<longrightarrow> next_ref (run calls s) \<le> Suc (next_ref s)"
    by (blast intro: run_guarded dest: reachable_guarded)
  have kept: "store s \<noteq> None \<longrightarrow> run calls s = s"
    by (blast intro: run_existing)
  from guard never one kept show ?thesis
    by (intro conjI)
qed

lemma constructor_initial: "isl (constructor initial)"
  by (simp add: constructor_def initial_def empty_options_def)

lemma run_example:
  "run [CallNew, CallInitializeStore all_ok example_options, CallNew,
        CallInitializeStore all_fail other_options] initial = ready"
proof -
  obtain e where e: "constructor initial = Inl e"
    using constructor_initial by (cases "constructor initial") auto
  have "run [CallNew, CallInitializeStore all_ok example_options, CallNew,
        CallInitializeStore all_fail other_options] initial =
      run [CallNew, CallInitializeStore all_fail other_options] ready"
  proof -
    have n: "run (CallNew # cs) initial = run cs initial" for cs
      by (simp add: e)
    show ?thesis
      by (simp only: n run.simps(2) initializeStore_example fst_conv snd_conv)
  qed
  also have "\<dots> = ready"
    by (rule run_existing) (simp add: ready_def)
  finally show ?thesis .
qed

theorem one_instance_between_resets_witness:
  "isl (constructor initial) \<and> isl (constructor ready) \<and> isl (constructor (reset ready)) \<and>
   reachable initial \<and> reachable ready \<and> reachable (reset ready) \<and>
   next_ref (run [CallNew, CallInitializeStore all_ok example_options, CallNew,
        CallInitializeStore all_fail other_options] initial) = 1 \<and>
   run [CallNew, CallInitializeStore all_fail other_options, CallNew] ready = ready"
proof -
  have a: "store ready \<noteq> None" "cosmosClient (options initial) = None"
    by (simp_all add: ready_def initial_def empty_options_def)
  have r: "reachable (reset ready)"
    by (rule reachable_reset [OF reachable_ready])
  have n: "next_ref (run [CallNew, CallInitializeStore all_ok example_options, CallNew,
        CallInitializeStore all_fail other_options] initial) = 1"
    by (simp only: run_example) (simp add: ready_def)
  from one_instance_between_resets [of initial] one_instance_between_resets [of ready]
    one_instance_between_resets [of "reset ready"] a r reachable_initial reachable_ready n
  show ?thesis by blast
qed

text \<open>
  C4, as stated, fails: there can be more than one instance in a process. After a
  reset, \<^verbatim>\<open>initializeStore\<close> constructs a second instance, while the first one, still
  held by its caller, keeps its handles and goes on serving operations.
\<close>

theorem second_instance_after_reset:
  "initializeStore all_ok example_options initial =
     (Inr ready_store, ready,
      [DatabasesCreateIfNotExists (CosmosClient 0) (Some ''db''),
       ContainersCreateIfNotExists (Database (Some ''db'')) (Some ''sessions'') (- 1) ''/id'']) \<and>
   fst (initializeStore all_ok example_options (reset ready)) = Inr second_store \<and>
   ref ready_store = 0 \<and> ref second_store = 1 \<and>
   container ready_store = Some sessions_container \<and>
   container second_store = Some sessions_container \<and>
   requests (destroy all_ok ready_store ''s1'') = [ItemDelete sessions_container ''s1'' ''s1''] \<and>
   requests (destroy all_ok second_store ''s1'') = [ItemDelete sessions_container ''s1'' ''s1'']"
proof -
  have i: "fst (initializeStore all_ok example_options (reset ready)) = Inr second_store"
    by (simp add: initializeStore_def example_options_def reset_def ready_def empty_options_def
        updateOptions_def constructor_def setup_store_def createContainer_def all_ok_def
        second_store_def DEFAULT_TTL_def DEFAULT_CONTAINER_NAME_def PARTITION_KEY_PATH_def)
  have c: "container second_store = Some sessions_container"
    by (simp add: second_store_def sessions_container_def)
  have d: "requests (destroy all_ok ready_store ''s1'') = [ItemDelete sessions_container ''s1'' ''s1'']"
    "requests (destroy all_ok second_store ''s1'') = [ItemDelete sessions_container ''s1'' ''s1'']"
    by (simp_all add: destroy_def all_ok_def c container_ready_store)
  from initializeStore_example i c d container_ready_store show ?thesis
    by (simp add: ready_store_def second_store_def)
qed

section \<open>Falsy options\<close>

lemma updateOptions_truthy:
  "truthy_policy (ttl (updateOptions opts cur)) \<and> truthy_string (containerName (updateOptions opts cur))"
  by (simp add: updateOptions_def DEFAULT_TTL_def DEFAULT_CONTAINER_NAME_def)

lemma reachable_options_truthy:
  "reachable s \<Longrightarrow>
   (ttl (options s) = None \<or> truthy_policy (ttl (options s))) \<and>
   (containerName (options s) = None \<or> truthy_string (containerName (options s)))"
proof (induction rule: reachable.induct)
  case reachable_initial
  show ?case by (simp add: initial_def empty_options_def)
next
  case (reachable_initializeStore s be opts r s' rs)
  from initializeStore_cases [OF reachable_initializeStore.hyps(2)] reachable_initializeStore.IH
    updateOptions_truthy [of opts "options s"]
  show ?case by auto
next
  case (reachable_reset s)
  show ?case by (simp add: reset_def empty_options_def)
next
  case (reachable_constructor s st s')
  then show ?case by (auto simp add: constructor_def split: if_splits)
qed

text \<open>
  C10. \<^verbatim>\<open>updateOptions\<close> replaces a \<^verbatim>\<open>ttl\<close> of 0 by 86400 and an empty
  \<^verbatim>\<open>containerName\<close> by \<^verbatim>\<open>sessions\<close>; so does every \<^verbatim>\<open>initializeStore\<close> call that
  captures its options; and in no reachable static state is the TTL policy the number
  0 or the container name empty.
\<close>

theorem zero_ttl_replaced_by_default:
  "(ttl opts = Some (TtlNumber (Num 0)) \<longrightarrow>
      ttl (updateOptions opts cur) = Some (TtlNumber (Num 86400))) \<and>
   (containerName opts = Some [] \<longrightarrow>
      containerName (updateOptions opts cur) = Some ''sessions'') \<and>
   (store s = None \<and> cosmosClient opts \<noteq> None \<and> truthy_string (databaseName opts) \<and>
    initializeStore be opts s = (r, s', rs) \<longrightarrow>
      (ttl opts = Some (TtlNumber (Num 0)) \<longrightarrow>
         ttl (options s') = Some (TtlNumber (Num 86400))) \<and>
      (containerName opts = Some [] \<longrightarrow> containerName (options s') = Some ''sessions'')) \<and>
   (reachable s \<longrightarrow>
      ttl (options s) \<noteq> Some (TtlNumber (Num 0)) \<and> containerName (options s) \<noteq> Some [])"
proof -
  have update_ttl: "ttl opts = Some (TtlNumber (Num 0)) \<longrightarrow>
      ttl (updateOptions opts cur) = Some (TtlNumber (Num 86400))"
    by (simp add: updateOptions_def DEFAULT_TTL_def)
  have update_name: "containerName opts = Some [] \<longrightarrow>
      containerName (updateOptions opts cur) = Some ''sessions''"
    by (simp add: updateOptions_def DEFAULT_CONTAINER_NAME_def)
  have captured: "store s = None \<and> cosmosClient opts \<noteq> None \<and>
    truthy_string (databaseName opts) \<and> initializeStore be opts s = (r, s', rs) \<longrightarrow>
      (ttl opts = Some (TtlNumber (Num 0)) \<longrightarrow>
         ttl (options s') = Some (TtlNumber (Num 86400))) \<and>
      (containerName opts = Some [] \<longrightarrow> containerName (options s') = Some ''sessions'')"
  proof
    assume h: "store s = None \<and> cosmosClient opts \<noteq> None \<and>
      truthy_string (databaseName opts) \<and> initializeStore be opts s = (r, s', rs)"
    then obtain cl where "cosmosClient opts = Some cl" by auto
    with h initializeStore_fresh [of s opts cl be r s' rs]
    have o: "options s' = updateOptions opts (options s)" by blast
    show "(ttl opts = Some (TtlNumber (Num 0)) \<longrightarrow>
         ttl (options s') = Some (TtlNumber (Num 86400))) \<and>
      (containerName opts = Some [] \<longrightarrow> containerName (options s') = Some ''sessions'')"
      by (simp add: o updateOptions_def DEFAULT_TTL_def DEFAULT_CONTAINER_NAME_def)
  qed
  have never: "reachable s \<longrightarrow>
      ttl (options s) \<noteq> Some (TtlNumber (Num 0)) \<and> containerName (options s) \<noteq> Some []"
  proof
    assume "reachable s"
    from reachable_options_truthy [OF this]
    show "ttl (options s) \<noteq> Some (TtlNumber (Num 0)) \<and> containerName (options s) \<noteq> Some []"
      by auto
  qed
  from update_ttl update_name captured never show ?thesis
    by (intro conjI)
qed

theorem zero_ttl_replaced_by_default_witness:
  "ttl zero_options = Some (TtlNumber (Num 0)) \<and> containerName zero_options = Some [] \<and>
   ttl (options (fst (snd (initializeStore all_ok zero_options initial)))) =
     Some (TtlNumber (Num 86400)) \<and>
   containerName (options (fst (snd (initializeStore all_ok zero_options initial)))) =
     Some ''sessions'' \<and>
   reachable (fst (snd (initializeStore all_ok zero_options initial)))"
proof -
  let ?res = "initializeStore all_ok zero_options initial"
  have e: "?res = (fst ?res, fst (snd ?res), snd (snd ?res))"
    by simp
  have z: "ttl zero_options = Some (TtlNumber (Num 0))" "containerName zero_options = Some []"
    "store initial = None" "cosmosClient zero_options \<noteq> None"
    "truthy_string (databaseName zero_options)"
    by (simp_all add: zero_options_def initial_def)
  have re: "reachable (fst (snd ?res))"
    by (rule reachable_initializeStore [OF reachable_initial e])
  note t = zero_ttl_replaced_by_default [of zero_options "options initial" initial all_ok
      "fst ?res" "fst (snd ?res)" "snd (snd ?res)"]
  from t z e have o: "ttl (options (fst (snd ?res))) = Some (TtlNumber (Num 86400))"
    "containerName (options (fst (snd ?res))) = Some ''sessions''"
    by blast+
  with o z re show ?thesis by simp
qed

end
